theory Spec2Isabelle
  imports Complex_Main
begin

section \<open>Python strings and integers\<close>

text \<open>
  Python's \<open>str(n)\<close> for an unbounded integer: the decimal digits, most significant first,
  with a leading minus sign for a negative number. It is what an f-string writes for an
  integer field.
\<close>

definition digit_char :: "nat \<Rightarrow> char" where
  "digit_char d = char_of (48 + d)"

fun str_nat :: "nat \<Rightarrow> string" where
  "str_nat n = (if n < 10 then [digit_char n] else str_nat (n div 10) @ [digit_char (n mod 10)])"

declare str_nat.simps [simp del]

definition str_int :: "int \<Rightarrow> string" where
  "str_int i = (if i < 0 then CHR ''-'' # str_nat (nat (- i)) else str_nat (nat i))"


text \<open>\<open>sep.join(parts)\<close>.\<close>

fun join :: "string \<Rightarrow> string list \<Rightarrow> string" where
  "join sep [] = []"
| "join sep [p] = p"
| "join sep (p # q # ps) = p @ sep @ join sep (q # ps)"

section \<open>Cache key builders (app/cache/keys.py)\<close>



definition articles_feed :: "string \<Rightarrow> int \<Rightarrow> int \<Rightarrow> string" where
  "articles_feed username page limit =
     ''articles:list:feed:'' @ username @ '':page:'' @ str_int page @ '':limit:'' @ str_int limit"

definition user_profile :: "string \<Rightarrow> string" where
  "user_profile username = ''user:profile:'' @ username"

definition user_follower_count :: "string \<Rightarrow> string" where
  "user_follower_count username = ''user:profile:'' @ username @ '':follower_count''"

definition user_following_count :: "string \<Rightarrow> string" where
  "user_following_count username = ''user:profile:'' @ username @ '':following_count''"

definition comments_list :: "string \<Rightarrow> int \<Rightarrow> int \<Rightarrow> string" where
  "comments_list slug page limit =
     ''comments:article:'' @ slug @ '':page:'' @ str_int page @ '':limit:'' @ str_int limit"




section \<open>Cache monitor (app/cache/monitoring.py)\<close>

text \<open>
  The class attributes \<open>hits\<close> and \<open>misses\<close> are the process-wide state; both start at 0.
\<close>

record cache_monitor =
  hits :: int
  misses :: int

definition initial_monitor :: cache_monitor where
  "initial_monitor = \<lparr>hits = 0, misses = 0\<rparr>"

definition record_hit :: "cache_monitor \<Rightarrow> cache_monitor" where
  "record_hit cls = cls\<lparr>hits := hits cls + 1\<rparr>"

definition record_miss :: "cache_monitor \<Rightarrow> cache_monitor" where
  "record_miss cls = cls\<lparr>misses := misses cls + 1\<rparr>"









section \<open>More of Python's built-in operations\<close>

text \<open>Exceptions are values: a call returns \<open>Inl\<close> of the exception or \<open>Inr\<close> of its result.\<close>

datatype error =
  ZeroDivisionError | ValueError | KeyError string | IndexError | TypeError | AttributeError
  | ResponseError | NotModelled


text \<open>\<open>s.split(sep)\<close> with a one-character separator: never an empty list.\<close>

fun split_on :: "char \<Rightarrow> string \<Rightarrow> string list" where
  "split_on sep [] = [[]]"
| "split_on sep (c # cs) =
     (if c = sep then [] # split_on sep cs
      else (case split_on sep cs of [] \<Rightarrow> [[c]] | p # ps \<Rightarrow> (c # p) # ps))"

definition startswith :: "string \<Rightarrow> string \<Rightarrow> bool" where
  "startswith s pre = (take (length pre) s = pre)"

definition endswith :: "string \<Rightarrow> string \<Rightarrow> bool" where
  "endswith s suf = (length suf \<le> length s \<and> drop (length s - length suf) s = suf)"



definition is_digit :: "char \<Rightarrow> bool" where
  "is_digit c = (48 \<le> (of_char c :: nat) \<and> (of_char c :: nat) \<le> 57)"

text \<open>The number that a string of decimal digits writes.\<close>

definition dec_value :: "string \<Rightarrow> nat" where
  "dec_value ds = foldl (\<lambda>a c. 10 * a + (of_char c - 48)) 0 ds"



text \<open>
  A \<open>dict\<close> keeps its keys in the order of first insertion; storing under a key that is
  present replaces the value and leaves the position. A dict display stores its items from
  left to right.
\<close>

fun dict_set :: "'k \<Rightarrow> 'v \<Rightarrow> ('k \<times> 'v) list \<Rightarrow> ('k \<times> 'v) list" where
  "dict_set k v [] = [(k, v)]"
| "dict_set k v ((k', v') # kvs) =
     (if k' = k then (k, v) # kvs else (k', v') # dict_set k v kvs)"

definition dict_display :: "('k \<times> 'v) list \<Rightarrow> ('k \<times> 'v) list" where
  "dict_display items = foldl (\<lambda>d (k, v). dict_set k v d) [] items"

text \<open>JSON documents, with integers as the only numbers.\<close>

datatype json =
  JNull | JBool bool | JInt int | JStr string | JArr "json list" | JObj "(string \<times> json) list"

section \<open>The key-value store behind \<open>RedisClient\<close>\<close>

text \<open>
  The store is the external Redis server, reached with \<open>decode_responses=True\<close>: keys and
  values are strings. Its key space is a table of slots; a slot is empty or holds one key
  with its value and, when an expiry was set, the time to live in seconds. Deleting a key
  empties its slot, a new key takes a new slot at the end. \<open>SCAN\<close> walks the table by slot
  number: the cursor is the number of the next slot to visit, and 0 again once the table is
  exhausted. The time to live is recorded; entries are not removed by the passage of time.
\<close>

record redis_entry =
  entry_key :: string
  entry_value :: string
  entry_ttl :: "int option"

type_synonym redis = "redis_entry option list"

definition holds_key :: "string \<Rightarrow> redis_entry option \<Rightarrow> bool" where
  "holds_key k slot = (case slot of None \<Rightarrow> False | Some e \<Rightarrow> entry_key e = k)"

text \<open>\<open>GET key\<close>: the value, or \<open>None\<close> for a missing key.\<close>

definition redis_get :: "redis \<Rightarrow> string \<Rightarrow> string option" where
  "redis_get r k = (case List.find (holds_key k) r of
                      Some (Some e) \<Rightarrow> Some (entry_value e)
                    | _ \<Rightarrow> None)"

text \<open>The keys that are present, in slot order.\<close>

definition redis_keys :: "redis \<Rightarrow> string list" where
  "redis_keys r = map entry_key (List.map_filter id r)"

text \<open>Writing a slot: in place when the key is present, in a new slot otherwise.\<close>

definition redis_put :: "redis \<Rightarrow> redis_entry \<Rightarrow> redis" where
  "redis_put r e =
     (if list_ex (holds_key (entry_key e)) r
      then map (\<lambda>slot. if holds_key (entry_key e) slot then Some e else slot) r
      else r @ [Some e])"

text \<open>\<open>SETEX key seconds value\<close>: a time to live that is not positive is refused.\<close>

definition redis_setex :: "redis \<Rightarrow> string \<Rightarrow> int \<Rightarrow> string \<Rightarrow> error + redis" where
  "redis_setex r k seconds v =
     (if seconds \<le> 0 then Inl ResponseError
      else Inr (redis_put r \<lparr>entry_key = k, entry_value = v, entry_ttl = Some seconds\<rparr>))"








section \<open>Sliding-window rate limiter (app/core/rate_limiter.py)\<close>






section \<open>Rate-limit middleware (app/middleware/rate_limiting.py)\<close>

record rate_limit_config =
  cfg_limit :: int
  cfg_window :: int
  cfg_dimension :: string

definition RateLimitConfig :: "int \<Rightarrow> int \<Rightarrow> string \<Rightarrow> rate_limit_config" where
  "RateLimitConfig limit window dimension =
     \<lparr>cfg_limit = limit, cfg_window = window, cfg_dimension = dimension\<rparr>"

definition load_limit_configs :: "(string \<times> rate_limit_config) list" where
  "load_limit_configs = dict_display
     [(''/api/users/login'', RateLimitConfig 5 60 ''ip''),
      (''/api/users'', RateLimitConfig 3 3600 ''ip''),
      (''/api/articles'', RateLimitConfig 10 3600 ''user''),
      (''/api/articles/{slug}/comments'', RateLimitConfig 20 3600 ''user''),
      (''/api/articles/{slug}/favorite'', RateLimitConfig 30 60 ''user''),
      (''/api/articles'', RateLimitConfig 100 60 ''ip''),
      (''/api/articles/{slug}'', RateLimitConfig 60 60 ''ip''),
      (''/api/profiles/{username}'', RateLimitConfig 60 60 ''ip'')]"

text \<open>
  What the middleware reads of a request: the path of the URL, the \<open>X-Forwarded-For\<close>
  header when there is one, the address of the peer, and the id of the user that an
  authentication layer put into \<open>request.state\<close>, when there is one.
\<close>

record request =
  req_path :: string
  req_x_forwarded_for :: "string option"
  req_client_host :: string
  req_user_id :: "int option"

datatype body = JsonContent json | OtherContent string


text \<open>
  The parametrised patterns are tried in the order of the table: a pattern fits a path with
  as many segments when every segment is a placeholder in braces or equal to the path's.
\<close>

definition segment_fits :: "string \<times> string \<Rightarrow> bool" where
  "segment_fits pq = (case pq of (pattern_part, path_part) \<Rightarrow>
     (startswith pattern_part ''{'' \<and> endswith pattern_part ''}'') \<or> pattern_part = path_part)"

fun match_parametrised :: "(string \<times> rate_limit_config) list \<Rightarrow> string \<Rightarrow> rate_limit_config option" where
  "match_parametrised [] path = None"
| "match_parametrised ((pattern, config) # items) path =
     (if CHR ''{'' \<in> set pattern \<and> CHR ''}'' \<in> set pattern
      then (let pattern_parts = split_on CHR ''/'' pattern;
                path_parts = split_on CHR ''/'' path
            in if length pattern_parts = length path_parts
                  \<and> list_all segment_fits (zip pattern_parts path_parts)
               then Some config
               else match_parametrised items path)
      else match_parametrised items path)"

definition get_rate_limit_config ::
  "(string \<times> rate_limit_config) list \<Rightarrow> request \<Rightarrow> rate_limit_config" where
  "get_rate_limit_config limit_configs request =
     (let path = req_path request
      in case map_of limit_configs path of
           Some config \<Rightarrow> config
         | None \<Rightarrow>
             (case match_parametrised limit_configs path of
                Some config \<Rightarrow> config
              | None \<Rightarrow> RateLimitConfig 0 60 ''ip''))"








section \<open>Cache invalidation (app/cache/invalidation.py)\<close>





section \<open>Runs of the middleware and preconditions on the store\<close>







text \<open>The table after the slots of a set of keys were emptied.\<close>

definition remove_keys :: "string set \<Rightarrow> redis \<Rightarrow> redis" where
  "remove_keys K r =
     map (\<lambda>slot. case slot of
                   None \<Rightarrow> None
                 | Some e \<Rightarrow> if entry_key e \<in> K then None else Some e) r"



section \<open>JSON text (\<open>json.dumps\<close> and \<open>json.loads\<close>)\<close>

text \<open>
  Strings are sequences of one-byte code points. \<open>json.dumps\<close> with its default settings
  separates items by a comma and a space and keys from values by a colon and a space, and
  writes every character outside printable ASCII as an escape.
\<close>

definition hex_digit :: "nat \<Rightarrow> char" where
  "hex_digit n = (if n < 10 then char_of (48 + n) else char_of (87 + n))"

definition escape_char :: "char \<Rightarrow> string" where
  "escape_char c =
     (let n = (of_char c :: nat)
      in if c = CHR 0x22 then [CHR 0x5C, CHR 0x22]
         else if c = CHR 0x5C then [CHR 0x5C, CHR 0x5C]
         else if n = 10 then [CHR 0x5C, CHR ''n'']
         else if n = 13 then [CHR 0x5C, CHR ''r'']
         else if n = 9 then [CHR 0x5C, CHR ''t'']
         else if n = 8 then [CHR 0x5C, CHR ''b'']
         else if n = 12 then [CHR 0x5C, CHR ''f'']
         else if n < 32 \<or> 127 < n
           then [CHR 0x5C, CHR ''u'', CHR ''0'', CHR ''0'', hex_digit (n div 16), hex_digit (n mod 16)]
         else [c])"

definition json_string :: "string \<Rightarrow> string" where
  "json_string s = [CHR 0x22] @ concat (map escape_char s) @ [CHR 0x22]"

primrec json_dumps :: "json \<Rightarrow> string" where
  "json_dumps JNull = ''null''"
| "json_dumps (JBool b) = (if b then ''true'' else ''false'')"
| "json_dumps (JInt i) = str_int i"
| "json_dumps (JStr s) = json_string s"
| "json_dumps (JArr vs) = ''['' @ join '', '' (map json_dumps vs) @ '']''"
| "json_dumps (JObj kvs) =
     ''{'' @ join '', '' (map (\<lambda>kv. json_string (fst kv) @ '': '' @ snd kv)
                            (map (map_prod id json_dumps) kvs)) @ ''}''"

text \<open>
  \<open>json.loads\<close> is a recursive-descent parser. The recursion is bounded by a counter that
  starts at twice the length of the text plus two, more than the nesting of any text of
  that length can use. A malformed text raises \<open>ValueError\<close>. Numbers with a fraction or an
  exponent, the constants \<open>NaN\<close> and \<open>Infinity\<close>, and escapes of code points above 255 have
  no value in this model: they are refused with \<open>NotModelled\<close>.
\<close>

definition is_json_space :: "char \<Rightarrow> bool" where
  "is_json_space c = (c = CHR '' '' \<or> of_char c = (9::nat) \<or> of_char c = (10::nat)
                      \<or> of_char c = (13::nat))"

definition skip_ws :: "string \<Rightarrow> string" where
  "skip_ws s = dropWhile is_json_space s"

definition hex_value :: "char \<Rightarrow> nat option" where
  "hex_value c =
     (let n = (of_char c :: nat)
      in if 48 \<le> n \<and> n \<le> 57 then Some (n - 48)
         else if 97 \<le> n \<and> n \<le> 102 then Some (n - 87)
         else if 65 \<le> n \<and> n \<le> 70 then Some (n - 55)
         else None)"

definition hex4 :: "string \<Rightarrow> nat option" where
  "hex4 s =
     (case map hex_value s of
        [Some a, Some b, Some c, Some d] \<Rightarrow> Some (((a * 16 + b) * 16 + c) * 16 + d)
      | _ \<Rightarrow> None)"

definition unescape :: "char \<Rightarrow> char option" where
  "unescape e =
     (if e = CHR 0x22 \<or> e = CHR 0x5C \<or> e = CHR ''/'' then Some e
      else if e = CHR ''n'' then Some (char_of (10::nat))
      else if e = CHR ''r'' then Some (char_of (13::nat))
      else if e = CHR ''t'' then Some (char_of (9::nat))
      else if e = CHR ''b'' then Some (char_of (8::nat))
      else if e = CHR ''f'' then Some (char_of (12::nat))
      else None)"

text \<open>The characters of a string after its opening quote, up to the closing quote.\<close>

fun parse_chars :: "nat \<Rightarrow> string \<Rightarrow> error + (string \<times> string)" where
  "parse_chars 0 s = Inl ValueError"
| "parse_chars (Suc n) [] = Inl ValueError"
| "parse_chars (Suc n) (c # cs) =
     (if c = CHR 0x22 then Inr ([], cs)
      else if c = CHR 0x5C then
        (case cs of
           [] \<Rightarrow> Inl ValueError
         | e # rest \<Rightarrow>
             if e = CHR ''u'' then
               (case hex4 (take 4 rest) of
                  None \<Rightarrow> Inl ValueError
                | Some code \<Rightarrow>
                    if 255 < code then Inl NotModelled
                    else (case parse_chars n (drop 4 rest) of
                            Inl err \<Rightarrow> Inl err
                          | Inr (str, rest') \<Rightarrow> Inr (char_of code # str, rest')))
             else
               (case unescape e of
                  None \<Rightarrow> Inl ValueError
                | Some ch \<Rightarrow>
                    (case parse_chars n rest of
                       Inl err \<Rightarrow> Inl err
                     | Inr (str, rest') \<Rightarrow> Inr (ch # str, rest'))))
      else if (of_char c :: nat) < 32 then Inl ValueError
      else (case parse_chars n cs of
              Inl err \<Rightarrow> Inl err
            | Inr (str, rest') \<Rightarrow> Inr (c # str, rest')))"

text \<open>An integer: an optional minus sign, then \<open>0\<close> or digits that do not start with 0.\<close>

definition parse_number :: "string \<Rightarrow> error + (json \<times> string)" where
  "parse_number s =
     (let neg = (s \<noteq> [] \<and> hd s = CHR ''-'');
          body = (if neg then tl s else s);
          ds = (if body \<noteq> [] \<and> hd body = CHR ''0'' then ''0'' else takeWhile is_digit body);
          rest = drop (length ds) body
      in if ds = [] then Inl ValueError
         else if rest \<noteq> [] \<and> hd rest \<in> {CHR ''.'', CHR ''e'', CHR ''E''} then Inl NotModelled
         else Inr (JInt ((if neg then - 1 else 1) * int (dec_value ds)), rest))"

fun parse_value :: "nat \<Rightarrow> string \<Rightarrow> error + (json \<times> string)"
  and parse_elements :: "nat \<Rightarrow> string \<Rightarrow> error + (json list \<times> string)"
  and parse_members :: "nat \<Rightarrow> string \<Rightarrow> error + ((string \<times> json) list \<times> string)" where
  "parse_value 0 s = Inl ValueError"
| "parse_value (Suc n) s =
     (case skip_ws s of
        [] \<Rightarrow> Inl ValueError
      | c # cs \<Rightarrow>
          if c = CHR 0x22 then
            (case parse_chars (length cs) cs of
               Inl err \<Rightarrow> Inl err
             | Inr (str, rest) \<Rightarrow> Inr (JStr str, rest))
          else if c = CHR ''['' then
            (if startswith (skip_ws cs) '']'' then Inr (JArr [], tl (skip_ws cs))
             else (case parse_elements n cs of
                     Inl err \<Rightarrow> Inl err
                   | Inr (vs, rest) \<Rightarrow> Inr (JArr vs, rest)))
          else if c = CHR ''{'' then
            (if startswith (skip_ws cs) ''}'' then Inr (JObj [], tl (skip_ws cs))
             else (case parse_members n cs of
                     Inl err \<Rightarrow> Inl err
                   | Inr (kvs, rest) \<Rightarrow> Inr (JObj (dict_display kvs), rest)))
          else if startswith (c # cs) ''null'' then Inr (JNull, drop 4 (c # cs))
          else if startswith (c # cs) ''true'' then Inr (JBool True, drop 4 (c # cs))
          else if startswith (c # cs) ''false'' then Inr (JBool False, drop 5 (c # cs))
          else if startswith (c # cs) ''NaN'' \<or> startswith (c # cs) ''Infinity''
                  \<or> startswith (c # cs) ''-Infinity'' then Inl NotModelled
          else parse_number (c # cs))"
| "parse_elements 0 s = Inl ValueError"
| "parse_elements (Suc n) s =
     (case parse_value n s of
        Inl err \<Rightarrow> Inl err
      | Inr (v, rest) \<Rightarrow>
          (case skip_ws rest of
             [] \<Rightarrow> Inl ValueError
           | d # rest' \<Rightarrow>
               if d = CHR '']'' then Inr ([v], rest')
               else if d = CHR '','' then
                 (case parse_elements n rest' of
                    Inl err \<Rightarrow> Inl err
                  | Inr (vs, rest'') \<Rightarrow> Inr (v # vs, rest''))
               else Inl ValueError))"
| "parse_members 0 s = Inl ValueError"
| "parse_members (Suc n) s =
     (case skip_ws s of
        [] \<Rightarrow> Inl ValueError
      | q # cs \<Rightarrow>
          if q \<noteq> CHR 0x22 then Inl ValueError
          else
            (case parse_chars (length cs) cs of
               Inl err \<Rightarrow> Inl err
             | Inr (k, rest) \<Rightarrow>
                 (case skip_ws rest of
                    [] \<Rightarrow> Inl ValueError
                  | colon # rest' \<Rightarrow>
                      if colon \<noteq> CHR '':'' then Inl ValueError
                      else
                        (case parse_value n rest' of
                           Inl err \<Rightarrow> Inl err
                         | Inr (v, rest'') \<Rightarrow>
                             (case skip_ws rest'' of
                                [] \<Rightarrow> Inl ValueError
                              | d # rest3 \<Rightarrow>
                                  if d = CHR ''}'' then Inr ([(k, v)], rest3)
                                  else if d = CHR '','' then
                                    (case parse_members n rest3 of
                                       Inl err \<Rightarrow> Inl err
                                     | Inr (kvs, rest4) \<Rightarrow> Inr ((k, v) # kvs, rest4))
                                  else Inl ValueError)))))"

definition json_loads :: "string \<Rightarrow> error + json" where
  "json_loads s =
     (case parse_value (2 * length s + 2) s of
        Inl err \<Rightarrow> Inl err
      | Inr (v, rest) \<Rightarrow> if skip_ws rest = [] then Inr v else Inl ValueError)"

section \<open>Cache-aside decorator (app/cache/decorators.py)\<close>

record settings =
  cache_enabled :: bool
  cache_default_ttl :: int

text \<open>
  The values that pass through the decorator: values that JSON can write, instances of
  Pydantic models, and lists that hold such instances. The type \<open>'m\<close> of the model
  instances is a parameter, as are their method \<open>json()\<close> and the class method
  \<open>parse_raw\<close> of a model class: the classes are defined by the application.
\<close>

datatype 'm pyvalue = PJson json | PModel 'm | PList "'m pyvalue list"

text \<open>The JSON document of a value that holds no model instance.\<close>

fun plain :: "'m pyvalue \<Rightarrow> json option" where
  "plain (PJson j) = Some j"
| "plain (PModel m) = None"
| "plain (PList xs) =
     (let ys = map plain xs
      in if list_all (\<lambda>y. y \<noteq> None) ys then Some (JArr (map the ys)) else None)"

text \<open>\<open>str(v)\<close>, as a replacement field without a format specification writes a value.\<close>

definition py_str :: "'m pyvalue \<Rightarrow> error + string" where
  "py_str v =
     (case v of
        PJson (JStr s) \<Rightarrow> Inr s
      | PJson (JInt i) \<Rightarrow> Inr (str_int i)
      | PJson (JBool b) \<Rightarrow> Inr (if b then ''True'' else ''False'')
      | PJson JNull \<Rightarrow> Inr ''None''
      | _ \<Rightarrow> Inl NotModelled)"

text \<open>
  \<open>key_pattern.format(**kwargs)\<close>: doubled braces are literal braces, a field in braces is
  replaced by the keyword argument of that name. A name that is no keyword raises
  \<open>KeyError\<close>, an empty or numeric name asks for a positional argument and raises
  \<open>IndexError\<close>, a stray brace raises \<open>ValueError\<close>. Conversions, format specifications
  and attribute or index lookups inside a field are refused with \<open>NotModelled\<close>.
\<close>

function py_format :: "string \<Rightarrow> (string \<times> 'm pyvalue) list \<Rightarrow> error + string" where
  "py_format [] kwargs = Inr []"
| "py_format (c # cs) kwargs =
     (if c = CHR ''{'' then
        (if startswith cs ''{'' then
           (case py_format (tl cs) kwargs of Inl e \<Rightarrow> Inl e | Inr t \<Rightarrow> Inr (c # t))
         else
           (let name = takeWhile (\<lambda>x. x \<noteq> CHR ''}'') cs;
                rest = dropWhile (\<lambda>x. x \<noteq> CHR ''}'') cs
            in if rest = [] then Inl ValueError
               else if CHR ''{'' \<in> set name then Inl ValueError
               else if list_ex (\<lambda>x. x \<in> {CHR ''!'', CHR '':'', CHR ''.'', CHR ''[''}) name
                 then Inl NotModelled
               else if list_all is_digit name then Inl IndexError
               else
                 (case map_of kwargs name of
                    None \<Rightarrow> Inl (KeyError name)
                  | Some v \<Rightarrow>
                      (case py_str v of
                         Inl e \<Rightarrow> Inl e
                       | Inr s \<Rightarrow>
                           (case py_format (tl rest) kwargs of
                              Inl e \<Rightarrow> Inl e
                            | Inr t \<Rightarrow> Inr (s @ t))))))
      else if c = CHR ''}'' then
        (if startswith cs ''}'' then
           (case py_format (tl cs) kwargs of Inl e \<Rightarrow> Inl e | Inr t \<Rightarrow> Inr (c # t))
         else Inl ValueError)
      else (case py_format cs kwargs of Inl e \<Rightarrow> Inl e | Inr t \<Rightarrow> Inr (c # t)))"
  by pat_completeness auto
termination
proof (relation "measure (\<lambda>(s, kwargs). length s)")
  show "wf (measure (\<lambda>(s, kwargs :: (string \<times> 'm pyvalue) list). length s))"
    by simp
next
  fix c :: char and cs :: string and kwargs :: "(string \<times> 'm pyvalue) list"
  assume "startswith cs ''{''"
  then have "cs \<noteq> []" by (auto simp: startswith_def)
  then show "((tl cs, kwargs), (c # cs, kwargs)) \<in> measure (\<lambda>(s, kwargs). length s)"
    by simp
next
  fix c :: char and cs :: string and kwargs :: "(string \<times> 'm pyvalue) list" and rest :: string
  assume "rest = dropWhile (\<lambda>x. x \<noteq> CHR ''}'') cs"
  then have "length rest \<le> length cs" by (simp add: length_dropWhile_le)
  then show "((tl rest, kwargs), (c # cs, kwargs)) \<in> measure (\<lambda>(s, kwargs). length s)"
    by simp
next
  fix c :: char and cs :: string and kwargs :: "(string \<times> 'm pyvalue) list"
  assume "startswith cs ''}''"
  then have "cs \<noteq> []" by (auto simp: startswith_def)
  then show "((tl cs, kwargs), (c # cs, kwargs)) \<in> measure (\<lambda>(s, kwargs). length s)"
    by simp
next
  fix c :: char and cs :: string and kwargs :: "(string \<times> 'm pyvalue) list"
  show "((cs, kwargs), (c # cs, kwargs)) \<in> measure (\<lambda>(s, kwargs). length s)"
    by simp
qed

declare py_format.simps [simp del]

text \<open>
  The declared return type of the wrapped function, as far as the decorator looks at it: no
  annotation, a model class (given by its \<open>parse_raw\<close>), a list type with its item type, or
  anything else. The item type of a list is a model class, another class, or not a class
  at all, on which \<open>issubclass\<close> raises \<open>TypeError\<close>.
\<close>

datatype 'm item_type = ItemModel "string \<Rightarrow> error + 'm" | ItemClass | ItemNotClass

datatype 'm return_type =
  NoAnnotation | ReturnsModel "string \<Rightarrow> error + 'm" | ReturnsList "'m item_type" | ReturnsOther

text \<open>A comprehension \<open>[f(x) for x in xs]\<close> stops at the first exception.\<close>

fun collect :: "('a \<Rightarrow> error + 'b) \<Rightarrow> 'a list \<Rightarrow> error + 'b list" where
  "collect f [] = Inr []"
| "collect f (x # xs) =
     (case f x of
        Inl e \<Rightarrow> Inl e
      | Inr y \<Rightarrow> (case collect f xs of Inl e \<Rightarrow> Inl e | Inr ys \<Rightarrow> Inr (y # ys)))"

text \<open>
  Iterating over a loaded JSON document: the items of an array, the keys of an object, the
  characters of a string; other documents are not iterable.
\<close>

definition py_iter :: "json \<Rightarrow> error + json list" where
  "py_iter doc =
     (case doc of
        JArr items \<Rightarrow> Inr items
      | JObj kvs \<Rightarrow> Inr (map (\<lambda>kv. JStr (fst kv)) kvs)
      | JStr s \<Rightarrow> Inr (map (\<lambda>c. JStr [c]) s)
      | _ \<Rightarrow> Inl TypeError)"

text \<open>\<open>parse_raw\<close> takes text; for anything else Pydantic raises its validation error.\<close>

definition parse_item :: "(string \<Rightarrow> error + 'm) \<Rightarrow> json \<Rightarrow> error + 'm pyvalue" where
  "parse_item parse_raw item =
     (case item of
        JStr s \<Rightarrow> (case parse_raw s of Inl e \<Rightarrow> Inl e | Inr m \<Rightarrow> Inr (PModel m))
      | _ \<Rightarrow> Inl ValueError)"

definition load_json :: "string \<Rightarrow> error + 'm pyvalue" where
  "load_json cached_data =
     (case json_loads cached_data of Inl e \<Rightarrow> Inl e | Inr doc \<Rightarrow> Inr (PJson doc))"

text \<open>The branch of a cache hit: the payload is read back as the return type says.\<close>

definition deserialize :: "'m return_type \<Rightarrow> string \<Rightarrow> error + 'm pyvalue" where
  "deserialize return_type cached_data =
     (case return_type of
        ReturnsModel parse_raw \<Rightarrow>
          (case parse_raw cached_data of Inl e \<Rightarrow> Inl e | Inr m \<Rightarrow> Inr (PModel m))
      | ReturnsList item_type \<Rightarrow>
          (case item_type of
             ItemNotClass \<Rightarrow> Inl TypeError
           | ItemModel parse_raw \<Rightarrow>
               (case json_loads cached_data of
                  Inl e \<Rightarrow> Inl e
                | Inr doc \<Rightarrow>
                    (case py_iter doc of
                       Inl e \<Rightarrow> Inl e
                     | Inr items \<Rightarrow>
                         (case collect (parse_item parse_raw) items of
                            Inl e \<Rightarrow> Inl e
                          | Inr models \<Rightarrow> Inr (PList models))))
           | ItemClass \<Rightarrow> load_json cached_data)
      | _ \<Rightarrow> load_json cached_data)"

text \<open>
  The serialisation of a result that is not \<open>None\<close>: a model instance by its own \<open>json()\<close>;
  a list whose first item is a model instance as the array of the \<open>json()\<close> texts of its
  items; anything else by \<open>json.dumps\<close>, which raises \<open>TypeError\<close> on a model instance.
\<close>

definition item_json :: "('m \<Rightarrow> string) \<Rightarrow> 'm pyvalue \<Rightarrow> error + json" where
  "item_json model_json item =
     (case item of PModel m \<Rightarrow> Inr (JStr (model_json m)) | _ \<Rightarrow> Inl AttributeError)"

definition serialize :: "('m \<Rightarrow> string) \<Rightarrow> 'm pyvalue \<Rightarrow> error + string" where
  "serialize model_json result =
     (case result of
        PModel m \<Rightarrow> Inr (model_json m)
      | PList (PModel m # items) \<Rightarrow>
          (case collect (item_json model_json) (PModel m # items) of
             Inl e \<Rightarrow> Inl e
           | Inr texts \<Rightarrow> Inr (json_dumps (JArr texts)))
      | _ \<Rightarrow> (case plain result of None \<Rightarrow> Inl TypeError | Some doc \<Rightarrow> Inr (json_dumps doc)))"

text \<open>
  The state that a call of the wrapper works on: the store, the monitor, and the number of
  invocations of the wrapped function so far. The wrapped function is a function of its
  positional and keyword arguments that returns a value or raises. The wrapper returns its
  result, or the exception raised, with the state afterwards.
\<close>

record cache_state =
  cs_redis :: redis
  cs_monitor :: cache_monitor
  cs_calls :: nat

definition wrapper ::
  "settings \<Rightarrow> string \<Rightarrow> int option \<Rightarrow> 'm return_type \<Rightarrow> ('m \<Rightarrow> string)
     \<Rightarrow> ('m pyvalue list \<Rightarrow> (string \<times> 'm pyvalue) list \<Rightarrow> error + 'm pyvalue)
     \<Rightarrow> 'm pyvalue list \<Rightarrow> (string \<times> 'm pyvalue) list \<Rightarrow> cache_state
     \<Rightarrow> (error + 'm pyvalue) \<times> cache_state" where
  "wrapper settings key_pattern ttl return_type model_json func args kwargs state =
     (if \<not> cache_enabled settings
      then (func args kwargs, state\<lparr>cs_calls := cs_calls state + 1\<rparr>)
      else
        case py_format key_pattern kwargs of
          Inl e \<Rightarrow> (Inl e, state)
        | Inr cache_key \<Rightarrow>
            let cached_data = redis_get (cs_redis state) cache_key
            in if cached_data \<noteq> None \<and> cached_data \<noteq> Some []
               then (deserialize return_type (the cached_data),
                     state\<lparr>cs_monitor := record_hit (cs_monitor state)\<rparr>)
               else
                 let state = state\<lparr>cs_monitor := record_miss (cs_monitor state),
                                   cs_calls := cs_calls state + 1\<rparr>
                 in case func args kwargs of
                      Inl e \<Rightarrow> (Inl e, state)
                    | Inr result \<Rightarrow>
                        if result \<noteq> PJson JNull then
                          let cache_ttl =
                                (if ttl \<noteq> None \<and> ttl \<noteq> Some 0 then the ttl
                                 else cache_default_ttl settings)
                          in case serialize model_json result of
                               Inl e \<Rightarrow> (Inl e, state)
                             | Inr serialized_data \<Rightarrow>
                                 (case redis_setex (cs_redis state) cache_key cache_ttl
                                         serialized_data of
                                    Inl e \<Rightarrow> (Inl e, state)
                                  | Inr redis \<Rightarrow> (Inr result, state\<lparr>cs_redis := redis\<rparr>))
                        else (Inr result, state))"

section \<open>Observations and samples for the decorator\<close>

text \<open>The time to live recorded for a key.\<close>

definition redis_ttl :: "redis \<Rightarrow> string \<Rightarrow> int option" where
  "redis_ttl r k = (case List.find (holds_key k) r of
                      Some (Some e) \<Rightarrow> entry_ttl e
                    | _ \<Rightarrow> None)"

text \<open>
  A sample model class: an instance is its JSON object, \<open>json()\<close> writes it and \<open>parse_raw\<close>
  accepts the text of any JSON object.
\<close>

definition sample_model_json :: "json \<Rightarrow> string" where
  "sample_model_json m = json_dumps m"

definition sample_parse_raw :: "string \<Rightarrow> error + json" where
  "sample_parse_raw s =
     (case json_loads s of
        Inr (JObj kvs) \<Rightarrow> Inr (JObj kvs)
      | _ \<Rightarrow> Inl ValueError)"

text \<open>
  A sample read operation: its result depends on its positional argument, the reader, and
  on the keyword argument \<open>tag\<close>; it returns a list of one article.
\<close>

definition sample_read :: "json pyvalue list \<Rightarrow> (string \<times> json pyvalue) list \<Rightarrow> error + json pyvalue" where
  "sample_read args kwargs =
     (case (args, map_of kwargs ''tag'') of
        ([PJson reader], Some (PJson tag)) \<Rightarrow>
          Inr (PList [PModel (JObj [(''tag'', tag), (''reader'', reader)])])
      | _ \<Rightarrow> Inl TypeError)"

definition sample_settings :: settings where
  "sample_settings = \<lparr>cache_enabled = True, cache_default_ttl = 300\<rparr>"

definition initial_cache_state :: cache_state where
  "initial_cache_state = \<lparr>cs_redis = [], cs_monitor = initial_monitor, cs_calls = 0\<rparr>"

section \<open>Properties of the key builders\<close>

text \<open>
  Claim C5, as the code has it: for every username the three profile key builders return
  the username after the prefix \<open>user:profile:\<close>, followed by nothing, by
  \<open>:follower_count\<close> and by \<open>:following_count\<close> respectively.
\<close>

theorem profile_keys_exact:
  "user_profile username = ''user:profile:'' @ username
   \<and> user_follower_count username = ''user:profile:'' @ username @ '':follower_count''
   \<and> user_following_count username = ''user:profile:'' @ username @ '':following_count''"
  by (simp add: user_profile_def user_follower_count_def user_following_count_def)

text \<open>
  Claim C5 as the specification words it fails: the key of the profile of \<open>bob\<close> is not
  \<open>profile:bob\<close>.
\<close>

theorem profile_key_not_bare_prefix:
  "user_profile ''bob'' = ''user:profile:bob'' \<and> user_profile ''bob'' \<noteq> ''profile:bob''"
  by (simp add: user_profile_def)



section \<open>Properties of the cache monitor\<close>












section \<open>Properties of the quota table\<close>

lemma load_limit_configs_table:
  "load_limit_configs =
     [(''/api/users/login'', RateLimitConfig 5 60 ''ip''),
      (''/api/users'', RateLimitConfig 3 3600 ''ip''),
      (''/api/articles'', RateLimitConfig 100 60 ''ip''),
      (''/api/articles/{slug}/comments'', RateLimitConfig 20 3600 ''user''),
      (''/api/articles/{slug}/favorite'', RateLimitConfig 30 60 ''user''),
      (''/api/articles/{slug}'', RateLimitConfig 60 60 ''ip''),
      (''/api/profiles/{username}'', RateLimitConfig 60 60 ''ip'')]"
  by (simp add: load_limit_configs_def dict_display_def)

text \<open>
  Claim C6: the quota table has exactly one entry under the key \<open>/api/articles\<close>, the one
  registered last (100 requests per 60 seconds, by IP address), and a request for exactly
  this path resolves to it, not to the earlier entry of 10 per hour by user.
\<close>

theorem articles_quota_is_last_registration:
  "map (\<lambda>kv. snd kv) (filter (\<lambda>kv. fst kv = ''/api/articles'') load_limit_configs)
     = [RateLimitConfig 100 60 ''ip'']
   \<and> get_rate_limit_config load_limit_configs (request\<lparr>req_path := ''/api/articles''\<rparr>)
       = \<lparr>cfg_limit = 100, cfg_window = 60, cfg_dimension = ''ip''\<rparr>
   \<and> get_rate_limit_config load_limit_configs (request\<lparr>req_path := ''/api/articles''\<rparr>)
       \<noteq> \<lparr>cfg_limit = 10, cfg_window = 3600, cfg_dimension = ''user''\<rparr>"
  by (simp add: load_limit_configs_table get_rate_limit_config_def RateLimitConfig_def)


section \<open>Properties of the rate limiter and its middleware\<close>





















section \<open>Properties of the cache invalidation\<close>

lemma redis_keys_Nil [simp]: "redis_keys [] = []"
  by (simp add: redis_keys_def List.map_filter_simps)








lemma length_remove_keys [simp]: "length (remove_keys K r) = length r"
  by (simp add: remove_keys_def)











section \<open>Properties of the cache-aside decorator\<close>

lemma find_put_present:
  assumes "list_ex (holds_key (entry_key e)) r"
  shows "List.find (holds_key (entry_key e))
           (map (\<lambda>slot. if holds_key (entry_key e) slot then Some e else slot) r) = Some (Some e)"
  using assms by (induction r) (auto simp: holds_key_def)

lemma find_put_absent:
  assumes "\<not> list_ex (holds_key (entry_key e)) r"
  shows "List.find (holds_key (entry_key e)) (r @ [Some e]) = Some (Some e)"
  using assms by (induction r) (auto simp: holds_key_def)

lemma find_redis_put: "List.find (holds_key (entry_key e)) (redis_put r e) = Some (Some e)"
  by (simp add: redis_put_def find_put_present find_put_absent)

lemma redis_get_put: "redis_get (redis_put r e) (entry_key e) = Some (entry_value e)"
  by (simp add: redis_get_def find_redis_put)

lemma redis_ttl_put: "redis_ttl (redis_put r e) (entry_key e) = entry_ttl e"
  by (simp add: redis_ttl_def find_redis_put)

lemma redis_setex_get:
  "0 < seconds \<Longrightarrow> \<exists>r'. redis_setex r k seconds v = Inr r' \<and> redis_get r' k = Some v
      \<and> redis_ttl r' k = Some seconds"
  using redis_get_put [of r "\<lparr>entry_key = k, entry_value = v, entry_ttl = Some seconds\<rparr>"]
        redis_ttl_put [of r "\<lparr>entry_key = k, entry_value = v, entry_ttl = Some seconds\<rparr>"]
  by (simp add: redis_setex_def)



end
